theory Spec2Isabelle
  imports Complex_Main "HOL-Library.Word"
begin

unbundle bit_operations_syntax

section \<open>The OPLS force field: data model\<close>

text \<open>
  The topology is consumed read-only. It exposes four ordered sequences of atom-index
  tuples (\<^verbatim>\<open>boost::array<size_t, N>\<close> in the code, read with \<^verbatim>\<open>interaction[0]\<close> ...):
  bonded pairs, angle triples, torsion quadruples and nonbonded pairs.
\<close>

record Topology =
  bondedInteractions :: "(nat \<times> nat) list"
  angleInteractions :: "(nat \<times> nat \<times> nat) list"
  torsionInteractions :: "(nat \<times> nat \<times> nat \<times> nat) list"
  nonbondedInteractions :: "(nat \<times> nat) list"

datatype CalculationKind = BondStrech | AngleBend | Torsion | Nonbonded

text \<open>
  Modelled from the spec: the calculation classes (\<^verbatim>\<open>oplscalculation.h\<close>) are not among
  the source files. A calculation owns a fixed-size tuple of atom indices whose arity depends
  on its kind, a boolean "is set up" flag and, only when set up, a coefficient set copied
  from the matched parameter record. The coefficient set is kept abstract (\<open>'co\<close>).
\<close>

record 'co Calculation =
  kind :: CalculationKind
  atoms :: "nat list"
  isSetup :: bool
  coefficients :: "'co option"

text \<open>
  Modelled from the spec: the four constructors build a calculation "with only its
  atom-index tuple known": not set up, no coefficients bound.
\<close>

definition OplsBondStrechCalculation :: "nat \<Rightarrow> nat \<Rightarrow> 'co Calculation" where
  "OplsBondStrechCalculation a b =
     \<lparr>kind = BondStrech, atoms = [a, b], isSetup = False, coefficients = None\<rparr>"

definition OplsAngleBendCalculation :: "nat \<Rightarrow> nat \<Rightarrow> nat \<Rightarrow> 'co Calculation" where
  "OplsAngleBendCalculation a b c =
     \<lparr>kind = AngleBend, atoms = [a, b, c], isSetup = False, coefficients = None\<rparr>"

definition OplsTorsionCalculation :: "nat \<Rightarrow> nat \<Rightarrow> nat \<Rightarrow> nat \<Rightarrow> 'co Calculation" where
  "OplsTorsionCalculation a b c d =
     \<lparr>kind = Torsion, atoms = [a, b, c, d], isSetup = False, coefficients = None\<rparr>"

definition OplsNonbondedCalculation :: "nat \<Rightarrow> nat \<Rightarrow> 'co Calculation" where
  "OplsNonbondedCalculation a b =
     \<lparr>kind = Nonbonded, atoms = [a, b], isSetup = False, coefficients = None\<rparr>"

text \<open>
  The parameter table (\<^verbatim>\<open>OplsParameters\<close>) and the atom typer are not among the source
  files either. Together they are taken as a parameter: a lookup that, given the engine's
  table pointer (\<open>None\<close> is the null pointer), the kind of a term and its atom indices,
  answers the matched coefficient set or nothing.
\<close>

type_synonym ('p, 'co) lookup = "'p option \<Rightarrow> CalculationKind \<Rightarrow> nat list \<Rightarrow> 'co option"

text \<open>
  Modelled from the spec: \<^verbatim>\<open>OplsCalculation::setup(parameters)\<close> is not among the source
  files. It "performs a table lookup, and on success copies the matched coefficients into
  the calculation; returns true iff a match was found. No side effect on failure other than
  leaving the calculation unbound."
\<close>

definition OplsCalculation_setup ::
  "('p, 'co) lookup \<Rightarrow> 'p option \<Rightarrow> 'co Calculation \<Rightarrow> 'co Calculation \<times> bool" where
  "OplsCalculation_setup lk p c =
     (case lk p (kind c) (atoms c) of
        None \<Rightarrow> (c, False)
      | Some v \<Rightarrow> (c\<lparr>coefficients := Some v\<rparr>, True))"

text \<open>
  The engine: the state of the base class \<^verbatim>\<open>chemkit::ForceField\<close> (flags word, attached
  topology, ordered calculation collection) and the member \<^verbatim>\<open>m_parameters\<close> of
  \<^verbatim>\<open>OplsForceField\<close>.
\<close>

record ('p, 'co) OplsForceField =
  ff_name :: string
  flags :: "32 word"
  topology :: "Topology option"
  calculations :: "'co Calculation list"
  m_parameters :: "'p option"

text \<open>
  Modelled from the spec: the base class \<^verbatim>\<open>chemkit::ForceField\<close> is not among the source
  files. Its state is "an ordered sequence of (Calculation, setup-flag) pairs, one flags
  word (capability bits)"; a new engine is unconfigured: no topology, no calculations, no
  flag. \<^verbatim>\<open>AnalyticalGradient\<close> is the capability bit "supports analytic gradient".
\<close>

definition AnalyticalGradient :: "32 word" where
  "AnalyticalGradient = 0x01"

definition ForceField_new :: "string \<Rightarrow> ('p, 'co) OplsForceField" where
  "ForceField_new n =
     \<lparr>ff_name = n, flags = 0, topology = None, calculations = [], m_parameters = None\<rparr>"

definition setFlags :: "('p, 'co) OplsForceField \<Rightarrow> 32 word \<Rightarrow> ('p, 'co) OplsForceField" where
  "setFlags ff fl = ff\<lparr>flags := fl\<rparr>"

definition testFlag :: "('p, 'co) OplsForceField \<Rightarrow> 32 word \<Rightarrow> bool" where
  "testFlag ff fl = (flags ff AND fl \<noteq> 0)"

definition setTopology ::
  "('p, 'co) OplsForceField \<Rightarrow> Topology option \<Rightarrow> ('p, 'co) OplsForceField" where
  "setTopology ff t = ff\<lparr>topology := t\<rparr>"

text \<open>
  Modelled from the spec: \<^verbatim>\<open>addCalculation\<close> is "appending to the engine's ordered
  collection"; \<^verbatim>\<open>setCalculationSetup\<close> "records the boolean result against that
  calculation (its "is set up" flag)"; \<^verbatim>\<open>count()\<close> and \<^verbatim>\<open>isSetUp(i)\<close> are the
  per-calculation introspection of the produced interface.
\<close>

definition addCalculation ::
  "('p, 'co) OplsForceField \<Rightarrow> 'co Calculation \<Rightarrow> ('p, 'co) OplsForceField" where
  "addCalculation ff c = ff\<lparr>calculations := calculations ff @ [c]\<rparr>"

definition setCalculationSetup :: "'co Calculation \<Rightarrow> bool \<Rightarrow> 'co Calculation" where
  "setCalculationSetup c su = c\<lparr>isSetup := su\<rparr>"

definition calculationCount :: "('p, 'co) OplsForceField \<Rightarrow> nat" where
  "calculationCount ff = length (calculations ff)"

section \<open>The OPLS force field: construction and setup\<close>

text \<open>
  The plugin manager, as far as the constructor uses it: the registered plugins by name,
  each with its data path. \<^verbatim>\<open>plugin(name)\<close> answers the plugin or a null pointer.
\<close>

record Plugin =
  dataPath :: string

type_synonym PluginManager = "(string \<times> Plugin) list"

definition plugin :: "PluginManager \<Rightarrow> string \<Rightarrow> Plugin option" where
  "plugin pm n = map_of pm n"

text \<open>
  \<^verbatim>\<open>new OplsParameters(fileName)\<close> is a parameter of the model (the class is not among the
  source files): it answers a table, or fails with a load error, which would leave the
  constructor as a C++ exception does. A loader that never fails is one instance.

  \<^verbatim>\<open>
  OplsForceField::OplsForceField() : chemkit::ForceField("opls")
  {
      m_parameters = 0;
      setFlags(chemkit::ForceField::AnalyticalGradient);
      const chemkit::Plugin *oplsPlugin = chemkit::PluginManager::instance()->plugin("opls");
      if(oplsPlugin){
          m_parameters = new OplsParameters(oplsPlugin->dataPath() + "oplsaa.prm");
      }
  }
  \<close>
\<close>

datatype LoadError = LoadError string

definition OplsForceField_new ::
  "PluginManager \<Rightarrow> (string \<Rightarrow> LoadError + 'p) \<Rightarrow> LoadError + ('p, 'co) OplsForceField" where
  "OplsForceField_new pm load =
     (let ff0 = ForceField_new ''opls'';
          ff1 = ff0\<lparr>m_parameters := None\<rparr>;
          ff2 = setFlags ff1 AnalyticalGradient
      in case plugin pm ''opls'' of
           None \<Rightarrow> Inr ff2
         | Some oplsPlugin \<Rightarrow>
             (case load (dataPath oplsPlugin @ ''oplsaa.prm'') of
                Inl e \<Rightarrow> Inl e
              | Inr tbl \<Rightarrow> Inr (ff2\<lparr>m_parameters := Some tbl\<rparr>)))"

text \<open>
  The last loop of \<^verbatim>\<open>setup\<close>, over the whole collection in order, with the running
  \<^verbatim>\<open>ok\<close>:
  \<^verbatim>\<open>
  foreach(chemkit::ForceFieldCalculation *calculation, calculations()){
      bool setup = static_cast<OplsCalculation *>(calculation)->setup(m_parameters);
      if(!setup){ ok = false; }
      setCalculationSetup(calculation, setup);
  }
  \<close>
\<close>

fun setup_calculations ::
  "('p, 'co) lookup \<Rightarrow> 'p option \<Rightarrow> 'co Calculation list \<Rightarrow> bool \<Rightarrow> 'co Calculation list \<times> bool"
where
  "setup_calculations lk p [] ok = ([], ok)"
| "setup_calculations lk p (c # cs) ok =
     (let (c', su) = OplsCalculation_setup lk p c;
          ok' = (if \<not> su then False else ok);
          (cs', r) = setup_calculations lk p cs ok'
      in (setCalculationSetup c' su # cs', r))"

text \<open>
  \<^verbatim>\<open>OplsForceField::setup()\<close>: the early return without a topology, the four enumeration
  loops in the order of the code, then the setup loop. The result is the engine after the
  call and the boolean returned.
\<close>

definition OplsForceField_setup ::
  "('p, 'co) lookup \<Rightarrow> ('p, 'co) OplsForceField \<Rightarrow> ('p, 'co) OplsForceField \<times> bool" where
  "OplsForceField_setup lk ff =
     (case topology ff of
        None \<Rightarrow> (ff, False)
      | Some t \<Rightarrow>
          (let ff1 = fold (\<lambda>(a, b) f. addCalculation f (OplsBondStrechCalculation a b))
                       (bondedInteractions t) ff;
               ff2 = fold (\<lambda>(a, b, c) f. addCalculation f (OplsAngleBendCalculation a b c))
                       (angleInteractions t) ff1;
               ff3 = fold (\<lambda>(a, b, c, d) f. addCalculation f (OplsTorsionCalculation a b c d))
                       (torsionInteractions t) ff2;
               ff4 = fold (\<lambda>(a, b) f. addCalculation f (OplsNonbondedCalculation a b))
                       (nonbondedInteractions t) ff3;
               (cs, ok) = setup_calculations lk (m_parameters ff4) (calculations ff4) True
           in (ff4\<lparr>calculations := cs\<rparr>, ok)))"

text \<open>
  Two abbreviations for what the loops of \<^verbatim>\<open>setup\<close> do: the calculations the four
  enumeration loops construct, in the order they are appended, and the effect of one
  iteration of the setup loop on its calculation.
\<close>

definition enumerated_calculations :: "Topology \<Rightarrow> 'co Calculation list" where
  "enumerated_calculations t =
     map (\<lambda>(a, b). OplsBondStrechCalculation a b) (bondedInteractions t) @
     map (\<lambda>(a, b, c). OplsAngleBendCalculation a b c) (angleInteractions t) @
     map (\<lambda>(a, b, c, d). OplsTorsionCalculation a b c d) (torsionInteractions t) @
     map (\<lambda>(a, b). OplsNonbondedCalculation a b) (nonbondedInteractions t)"

definition setup_one :: "('p, 'co) lookup \<Rightarrow> 'p option \<Rightarrow> 'co Calculation \<Rightarrow> 'co Calculation" where
  "setup_one lk p c =
     setCalculationSetup (fst (OplsCalculation_setup lk p c)) (snd (OplsCalculation_setup lk p c))"

text \<open>
  Modelled from the spec: \<^verbatim>\<open>compute()\<close> is not among the source files. It "sums
  energy()/gradient() over only the calculations whose "is set up" flag is true" and is
  "pure computation over in-memory state": the engine is returned as it was. Only the
  energy is modelled; the energy of one calculation is a parameter.
\<close>

definition compute ::
  "('co Calculation \<Rightarrow> real) \<Rightarrow> ('p, 'co) OplsForceField \<Rightarrow> ('p, 'co) OplsForceField \<times> real" where
  "compute en ff = (ff, sum_list (map en (filter isSetup (calculations ff))))"

text \<open>The operations a caller can apply to a constructed engine, and a run of them.\<close>

datatype Operation = Setup | Compute | SetTopology "Topology option"

fun apply_operation ::
  "('p, 'co) lookup \<Rightarrow> ('co Calculation \<Rightarrow> real) \<Rightarrow> Operation \<Rightarrow>
   ('p, 'co) OplsForceField \<Rightarrow> ('p, 'co) OplsForceField" where
  "apply_operation lk en Setup ff = fst (OplsForceField_setup lk ff)"
| "apply_operation lk en Compute ff = fst (compute en ff)"
| "apply_operation lk en (SetTopology t) ff = setTopology ff t"

subsection \<open>A concrete engine\<close>

text \<open>
  A small table keyed by kind and atom indices (the atom typer folded in), with no entry
  for the torsion; a topology with one interaction of each kind; the plugin manager with
  the "opls" plugin registered, and a loader that knows one file.
\<close>

type_synonym ExampleTable = "((CalculationKind \<times> nat list) \<times> rat list) list"

definition example_lookup :: "(ExampleTable, rat list) lookup" where
  "example_lookup p k as = (case p of None \<Rightarrow> None | Some tbl \<Rightarrow> map_of tbl (k, as))"

definition example_table :: ExampleTable where
  "example_table =
     [((BondStrech, [0, 1]), [340, 109 / 100]),
      ((AngleBend, [0, 1, 2]), [35, 109]),
      ((Nonbonded, [0, 3]), [1, 2])]"

definition example_topology :: Topology where
  "example_topology =
     \<lparr>bondedInteractions = [(0, 1)], angleInteractions = [(0, 1, 2)],
      torsionInteractions = [(0, 1, 2, 3)], nonbondedInteractions = [(0, 3)]\<rparr>"

definition empty_topology :: Topology where
  "empty_topology =
     \<lparr>bondedInteractions = [], angleInteractions = [],
      torsionInteractions = [], nonbondedInteractions = []\<rparr>"

definition example_plugins :: PluginManager where
  "example_plugins = [(''opls'', \<lparr>dataPath = ''data/''\<rparr>)]"

definition misplaced_plugins :: PluginManager where
  "misplaced_plugins = [(''opls'', \<lparr>dataPath = ''nowhere/''\<rparr>)]"

definition example_loader :: "string \<Rightarrow> LoadError + ExampleTable" where
  "example_loader path =
     (if path = ''data/oplsaa.prm'' then Inr example_table else Inl (LoadError path))"

definition example_energy :: "rat list Calculation \<Rightarrow> real" where
  "example_energy c = (if kind c = BondStrech then 2 else 1)"

text \<open>The engine as constructed from \<open>example_plugins\<close>, and with the topology attached.\<close>

definition constructed_engine :: "(ExampleTable, rat list) OplsForceField" where
  "constructed_engine =
     \<lparr>ff_name = ''opls'', flags = AnalyticalGradient, topology = None,
      calculations = [], m_parameters = Some example_table\<rparr>"

definition example_engine :: "(ExampleTable, rat list) OplsForceField" where
  "example_engine = setTopology constructed_engine (Some example_topology)"

definition example_calculations :: "rat list Calculation list" where
  "example_calculations =
     [\<lparr>kind = BondStrech, atoms = [0, 1], isSetup = True, coefficients = Some [340, 109 / 100]\<rparr>,
      \<lparr>kind = AngleBend, atoms = [0, 1, 2], isSetup = True, coefficients = Some [35, 109]\<rparr>,
      \<lparr>kind = Torsion, atoms = [0, 1, 2, 3], isSetup = False, coefficients = None\<rparr>,
      \<lparr>kind = Nonbonded, atoms = [0, 3], isSetup = True, coefficients = Some [1, 2]\<rparr>]"

text \<open>
  The engine after a first \<^verbatim>\<open>setup\<close> on the example topology, with another topology
  attached afterwards: one with a single bond, and one with no interaction at all.
\<close>

definition bond_topology :: Topology where
  "bond_topology =
     \<lparr>bondedInteractions = [(0, 1)], angleInteractions = [],
      torsionInteractions = [], nonbondedInteractions = []\<rparr>"

definition rebonded_engine :: "(ExampleTable, rat list) OplsForceField" where
  "rebonded_engine =
     setTopology (fst (OplsForceField_setup example_lookup example_engine)) (Some bond_topology)"

definition emptied_engine :: "(ExampleTable, rat list) OplsForceField" where
  "emptied_engine =
     setTopology (fst (OplsForceField_setup example_lookup example_engine)) (Some empty_topology)"

section \<open>GraphicsTransform\<close>

subsection \<open>Floating-point values\<close>

text \<open>
  The transform holds an \<^verbatim>\<open>Eigen::Matrix<float, 4, 4>\<close>. A \<^verbatim>\<open>float\<close> is a finite value,
  an infinity (\<open>Infinity True\<close> is the negative one) or NaN, and product and sum treat
  the infinities and NaN as IEEE 754 does: \<open>0 * inf\<close> and \<open>inf + (-inf)\<close> are NaN, and
  NaN is absorbing. Finite values are taken as real numbers: rounding, overflow to an
  infinity and the sign of zero are outside this model. It is used for the product of a
  matrix with a point or vector only.
\<close>

datatype float = Finite real | Infinity bool | NaN

fun fadd :: "float \<Rightarrow> float \<Rightarrow> float" where
  "fadd (Finite a) (Finite b) = Finite (a + b)"
| "fadd (Finite a) (Infinity t) = Infinity t"
| "fadd (Infinity s) (Finite b) = Infinity s"
| "fadd (Infinity s) (Infinity t) = (if s = t then Infinity s else NaN)"
| "fadd NaN y = NaN"
| "fadd x NaN = NaN"

fun fmul :: "float \<Rightarrow> float \<Rightarrow> float" where
  "fmul (Finite a) (Finite b) = Finite (a * b)"
| "fmul (Finite a) (Infinity t) = (if a = 0 then NaN else Infinity (t \<noteq> (a < 0)))"
| "fmul (Infinity s) (Finite b) = (if b = 0 then NaN else Infinity (s \<noteq> (b < 0)))"
| "fmul (Infinity s) (Infinity t) = Infinity (s \<noteq> t)"
| "fmul NaN y = NaN"
| "fmul x NaN = NaN"

subsection \<open>Matrices and vectors\<close>

text \<open>
  What the code uses of Eigen here: a 4x4 matrix as its four rows, \<^verbatim>\<open>setZero\<close>,
  \<^verbatim>\<open>setIdentity\<close>, reading a coefficient, and the product of a matrix with a
  4-vector.
\<close>

type_synonym Matrix4f = "float list list"
type_synonym Vector4f = "float \<times> float \<times> float \<times> float"
type_synonym Point3f = "float \<times> float \<times> float"
type_synonym Vector3f = "float \<times> float \<times> float"

definition setZero :: Matrix4f where
  "setZero = replicate 4 (replicate 4 (Finite 0))"

definition setIdentity :: Matrix4f where
  "setIdentity =
     [[Finite 1, Finite 0, Finite 0, Finite 0],
      [Finite 0, Finite 1, Finite 0, Finite 0],
      [Finite 0, Finite 0, Finite 1, Finite 0],
      [Finite 0, Finite 0, Finite 0, Finite 1]]"

definition coeff :: "Matrix4f \<Rightarrow> nat \<Rightarrow> nat \<Rightarrow> float" where
  "coeff m row column = m ! row ! column"

definition product :: "Matrix4f \<Rightarrow> Vector4f \<Rightarrow> Vector4f" where
  "product m v =
     (case v of (v0, v1, v2, v3) \<Rightarrow>
        let r = (\<lambda>i. fadd (fadd (fadd (fmul (coeff m i 0) v0) (fmul (coeff m i 1) v1))
                                (fmul (coeff m i 2) v2)) (fmul (coeff m i 3) v3))
        in (r 0, r 1, r 2, r 3))"

subsection \<open>The transform\<close>

text \<open>
  A transform is its matrix. The default constructor:
  \<^verbatim>\<open>
  m_matrix = new Eigen::Matrix<float, 4, 4>();
  m_matrix->setZero();
  \<close>
\<close>

definition GraphicsTransform_new :: Matrix4f where
  "GraphicsTransform_new = setZero"

text \<open>
  \<^verbatim>\<open>multiplyPoint\<close> and \<^verbatim>\<open>multiplyVector\<close> extend their argument by a fourth
  coordinate, 1 and 0, multiply, and keep the first three coordinates.
\<close>

definition multiplyPoint :: "Matrix4f \<Rightarrow> Point3f \<Rightarrow> Point3f" where
  "multiplyPoint m point =
     (case point of (x, y, z) \<Rightarrow>
        (case product m (x, y, z, Finite 1) of (r0, r1, r2, r3) \<Rightarrow> (r0, r1, r2)))"

definition multiplyVector :: "Matrix4f \<Rightarrow> Vector3f \<Rightarrow> Vector3f" where
  "multiplyVector m vector =
     (case vector of (x, y, z) \<Rightarrow>
        (case product m (x, y, z, Finite 0) of (r0, r1, r2, r3) \<Rightarrow> (r0, r1, r2)))"

definition identity :: Matrix4f where
  "identity = (let transform = GraphicsTransform_new in setIdentity)"

subsection \<open>Transforms computed from angles\<close>

text \<open>
  \<^verbatim>\<open>rotation\<close> and \<^verbatim>\<open>perspective\<close> compute with the C++ operators on \<^verbatim>\<open>float\<close>
  and \<^verbatim>\<open>double\<close>, the C library's \<^verbatim>\<open>cos\<close>, \<^verbatim>\<open>sin\<close> and \<^verbatim>\<open>tan\<close>, Eigen's
  \<^verbatim>\<open>normalized\<close>, and the constant \<^verbatim>\<open>chemkit::constants::DegreesToRadians\<close>, which
  is declared in \<^verbatim>\<open>chemkit/constants.h\<close>, not among the source files. What each of these
  computes (its rounding, its results at infinities and NaN, the value of the constant) is
  a parameter here: one function for each operation, the value of a numeric literal
  (\<open>op_lit\<close>), and the constant. The two functions are the code over any such
  arithmetic, with nothing assumed about it.
\<close>

record 'f FloatOps =
  op_lit :: "int \<Rightarrow> 'f"
  op_add :: "'f \<Rightarrow> 'f \<Rightarrow> 'f"
  op_sub :: "'f \<Rightarrow> 'f \<Rightarrow> 'f"
  op_mul :: "'f \<Rightarrow> 'f \<Rightarrow> 'f"
  op_div :: "'f \<Rightarrow> 'f \<Rightarrow> 'f"
  op_cos :: "'f \<Rightarrow> 'f"
  op_sin :: "'f \<Rightarrow> 'f"
  op_tan :: "'f \<Rightarrow> 'f"
  op_normalized :: "'f \<times> 'f \<times> 'f \<Rightarrow> 'f \<times> 'f \<times> 'f"
  DegreesToRadians :: 'f

text \<open>
  The default constructor and \<^verbatim>\<open>identity()\<close> over such an arithmetic, and the
  assignment \<^verbatim>\<open>transform(row, column) = v\<close>.
\<close>

definition GraphicsTransform_of :: "'f FloatOps \<Rightarrow> 'f list list" where
  "GraphicsTransform_of a = replicate 4 (replicate 4 (op_lit a 0))"

definition identity_of :: "'f FloatOps \<Rightarrow> 'f list list" where
  "identity_of a =
     (let transform = GraphicsTransform_of a
      in [[op_lit a 1, op_lit a 0, op_lit a 0, op_lit a 0],
          [op_lit a 0, op_lit a 1, op_lit a 0, op_lit a 0],
          [op_lit a 0, op_lit a 0, op_lit a 1, op_lit a 0],
          [op_lit a 0, op_lit a 0, op_lit a 0, op_lit a 1]])"




section \<open>Properties of setup\<close>

subsection \<open>The loops in closed form\<close>

lemma setup_calculations_eq:
  "setup_calculations lk p cs ok =
     (map (setup_one lk p) cs, ok \<and> list_all (\<lambda>c. snd (OplsCalculation_setup lk p c)) cs)"
  by (induction cs arbitrary: ok) (auto simp: setup_one_def split: prod.splits)

lemma fold_addCalculation:
  "fold (\<lambda>x f. addCalculation f (g x)) xs ff = ff\<lparr>calculations := calculations ff @ map g xs\<rparr>"
  by (induction xs arbitrary: ff) (simp_all add: addCalculation_def)

lemma setup_Some:
  assumes "topology ff = Some t"
  shows "OplsForceField_setup lk ff =
     (ff\<lparr>calculations :=
          map (setup_one lk (m_parameters ff)) (calculations ff @ enumerated_calculations t)\<rparr>,
      list_all (\<lambda>c. snd (OplsCalculation_setup lk (m_parameters ff) c))
        (calculations ff @ enumerated_calculations t))"
proof -
  note loops =
    fold_addCalculation[of "\<lambda>(a, b). OplsBondStrechCalculation a b", unfolded split_def]
    fold_addCalculation[of "\<lambda>(a, b, c). OplsAngleBendCalculation a b c", unfolded split_def]
    fold_addCalculation[of "\<lambda>(a, b, c, d). OplsTorsionCalculation a b c d", unfolded split_def]
    fold_addCalculation[of "\<lambda>(a, b). OplsNonbondedCalculation a b", unfolded split_def]
  show ?thesis
    using assms
    by (simp add: OplsForceField_setup_def Let_def setup_calculations_eq
        enumerated_calculations_def loops split_def)
qed

lemma setup_one_simps:
  "kind (setup_one lk p c) = kind c"
  "atoms (setup_one lk p c) = atoms c"
  "isSetup (setup_one lk p c) = (lk p (kind c) (atoms c) \<noteq> None)"
  by (simp_all add: setup_one_def OplsCalculation_setup_def setCalculationSetup_def
      split: option.splits)

lemma setup_one_idem: "setup_one lk p (setup_one lk p c) = setup_one lk p c"
  by (simp add: setup_one_def OplsCalculation_setup_def setCalculationSetup_def
      split: option.splits)

lemma snd_OplsCalculation_setup:
  "snd (OplsCalculation_setup lk p c) = (lk p (kind c) (atoms c) \<noteq> None)"
  by (simp add: OplsCalculation_setup_def split: option.splits)

lemma snd_setup_setup_one:
  "snd (OplsCalculation_setup lk p (setup_one lk p c)) = snd (OplsCalculation_setup lk p c)"
  by (simp add: snd_OplsCalculation_setup setup_one_simps)

lemma list_all_isSetup_setup_one:
  "list_all isSetup (map (setup_one lk p) xs) =
     list_all (\<lambda>c. snd (OplsCalculation_setup lk p c)) xs"
  by (induction xs) (simp_all add: setup_one_simps snd_OplsCalculation_setup)

lemma list_all_setup_setup_one:
  "list_all (\<lambda>c. snd (OplsCalculation_setup lk p c)) (map (setup_one lk p) xs) =
     list_all (\<lambda>c. snd (OplsCalculation_setup lk p c)) xs"
  by (induction xs) (simp_all add: snd_setup_setup_one)

lemma setup_result_flags:
  "topology ff = Some t \<Longrightarrow>
   snd (OplsForceField_setup lk ff) =
     list_all isSetup (calculations (fst (OplsForceField_setup lk ff)))"
  using list_all_isSetup_setup_one
    [of lk "m_parameters ff" "calculations ff @ enumerated_calculations t"]
  by (simp add: setup_Some)

lemma kind_atoms_enumerated:
  "map (\<lambda>c. (kind c, atoms c)) (enumerated_calculations t) =
     map (\<lambda>(a, b). (BondStrech, [a, b])) (bondedInteractions t) @
     map (\<lambda>(a, b, c). (AngleBend, [a, b, c])) (angleInteractions t) @
     map (\<lambda>(a, b, c, d). (Torsion, [a, b, c, d])) (torsionInteractions t) @
     map (\<lambda>(a, b). (Nonbonded, [a, b])) (nonbondedInteractions t)"
  by (simp add: enumerated_calculations_def split_def OplsBondStrechCalculation_def
      OplsAngleBendCalculation_def OplsTorsionCalculation_def OplsNonbondedCalculation_def)

lemma length_enumerated:
  "length (enumerated_calculations t) =
     length (bondedInteractions t) + length (angleInteractions t) +
     length (torsionInteractions t) + length (nonbondedInteractions t)"
  by (simp add: enumerated_calculations_def)

lemma enumerated_empty:
  "bondedInteractions t = [] \<Longrightarrow> angleInteractions t = [] \<Longrightarrow>
   torsionInteractions t = [] \<Longrightarrow> nonbondedInteractions t = [] \<Longrightarrow>
   enumerated_calculations t = []"
  by (simp add: enumerated_calculations_def)

subsection \<open>The concrete engine, evaluated\<close>

lemma example_new:
  "OplsForceField_new example_plugins example_loader = Inr constructed_engine"
  by (simp add: OplsForceField_new_def ForceField_new_def setFlags_def plugin_def
      example_plugins_def example_loader_def constructed_engine_def)

lemma example_setup:
  "OplsForceField_setup example_lookup example_engine =
     (example_engine\<lparr>calculations := example_calculations\<rparr>, False)"
  by (simp add: OplsForceField_setup_def example_engine_def constructed_engine_def
      setTopology_def example_topology_def example_calculations_def
      addCalculation_def OplsBondStrechCalculation_def OplsAngleBendCalculation_def
      OplsTorsionCalculation_def OplsNonbondedCalculation_def OplsCalculation_setup_def
      setCalculationSetup_def example_lookup_def example_table_def)

lemma example_resetup:
  "OplsForceField_setup example_lookup (example_engine\<lparr>calculations := example_calculations\<rparr>) =
     (example_engine\<lparr>calculations := example_calculations @ example_calculations\<rparr>, False)"
  by (simp add: OplsForceField_setup_def example_engine_def constructed_engine_def
      setTopology_def example_topology_def example_calculations_def
      addCalculation_def OplsBondStrechCalculation_def OplsAngleBendCalculation_def
      OplsTorsionCalculation_def OplsNonbondedCalculation_def OplsCalculation_setup_def
      setCalculationSetup_def example_lookup_def example_table_def)

lemma example_enumerated:
  "enumerated_calculations example_topology =
     [OplsBondStrechCalculation 0 1, OplsAngleBendCalculation 0 1 2,
      OplsTorsionCalculation 0 1 2 3, OplsNonbondedCalculation 0 3]"
  by (simp add: enumerated_calculations_def example_topology_def)

lemma example_engine_fields:
  "topology example_engine = Some example_topology"
  "calculations example_engine = []"
  "m_parameters example_engine = Some example_table"
  by (simp_all add: example_engine_def constructed_engine_def setTopology_def)

lemma rebonded_engine_fields:
  "topology rebonded_engine = Some bond_topology"
  "calculations rebonded_engine = example_calculations"
  "m_parameters rebonded_engine = Some example_table"
  by (simp_all add: rebonded_engine_def example_setup setTopology_def example_engine_fields)

lemma emptied_engine_fields:
  "topology emptied_engine = Some empty_topology"
  "calculations emptied_engine = example_calculations"
  "m_parameters emptied_engine = Some example_table"
  by (simp_all add: emptied_engine_def example_setup setTopology_def example_engine_fields)

lemma bond_enumerated:
  "enumerated_calculations bond_topology = [OplsBondStrechCalculation 0 1]"
  by (simp add: enumerated_calculations_def bond_topology_def)

lemma empty_enumerated: "enumerated_calculations empty_topology = []"
  by (simp add: enumerated_calculations_def empty_topology_def)

lemma example_bond_found:
  "snd (OplsCalculation_setup example_lookup (Some example_table)
          (OplsBondStrechCalculation 0 1)) = True"
  by (simp add: OplsCalculation_setup_def OplsBondStrechCalculation_def example_lookup_def
      example_table_def)

lemma example_calculations_fail:
  "list_all (\<lambda>c. snd (OplsCalculation_setup example_lookup (Some example_table) c))
     example_calculations = False"
  by (simp add: example_calculations_def OplsCalculation_setup_def example_lookup_def
      example_table_def)

lemma rebonded_setup:
  "snd (OplsForceField_setup example_lookup rebonded_engine) = False"
  "calculationCount (fst (OplsForceField_setup example_lookup rebonded_engine)) = 5"
  by (simp_all add: setup_Some[OF rebonded_engine_fields(1)] rebonded_engine_fields
      bond_enumerated example_calculations_fail calculationCount_def)
    (simp add: example_calculations_def)

lemma emptied_setup:
  "snd (OplsForceField_setup example_lookup emptied_engine) = False"
  "calculationCount (fst (OplsForceField_setup example_lookup emptied_engine)) = 4"
  by (simp_all add: setup_Some[OF emptied_engine_fields(1)] emptied_engine_fields
      empty_enumerated example_calculations_fail calculationCount_def)
    (simp add: example_calculations_def)

subsection \<open>Enumeration\<close>

text \<open>
  C1, enumeration fidelity. With a topology attached that has B bonded, A angle, T torsion
  and N nonbonded tuples, \<^verbatim>\<open>setup\<close> creates exactly B + A + T + N calculations: the
  count grows by that number, the calculations that were there before keep their place,
  kind and atoms, and the new ones follow them in the order bonded, angle, torsion,
  nonbonded, each sequence in the topology's order, each with the kind and the atom-index
  tuple (hence the arity 2, 3, 4, 2) of its interaction tuple.
\<close>

theorem setup_enumeration_fidelity:
  assumes "topology ff = Some t"
  shows "calculationCount (fst (OplsForceField_setup lk ff)) =
           calculationCount ff + (length (bondedInteractions t) + length (angleInteractions t) +
             length (torsionInteractions t) + length (nonbondedInteractions t)) \<and>
         map (\<lambda>c. (kind c, atoms c))
             (take (calculationCount ff) (calculations (fst (OplsForceField_setup lk ff)))) =
           map (\<lambda>c. (kind c, atoms c)) (calculations ff) \<and>
         map (\<lambda>c. (kind c, atoms c))
             (drop (calculationCount ff) (calculations (fst (OplsForceField_setup lk ff)))) =
           map (\<lambda>(a, b). (BondStrech, [a, b])) (bondedInteractions t) @
           map (\<lambda>(a, b, c). (AngleBend, [a, b, c])) (angleInteractions t) @
           map (\<lambda>(a, b, c, d). (Torsion, [a, b, c, d])) (torsionInteractions t) @
           map (\<lambda>(a, b). (Nonbonded, [a, b])) (nonbondedInteractions t)"
proof -
  let ?p = "m_parameters ff"
  have cs: "calculations (fst (OplsForceField_setup lk ff)) =
      map (setup_one lk ?p) (calculations ff) @ map (setup_one lk ?p) (enumerated_calculations t)"
    using assms by (simp add: setup_Some)
  have ka: "map (\<lambda>c. (kind c, atoms c)) (map (setup_one lk ?p) xs) =
      map (\<lambda>c. (kind c, atoms c)) xs" for xs
    by (simp add: setup_one_simps)
  show ?thesis
    unfolding cs calculationCount_def
    using ka[of "calculations ff"] ka[of "enumerated_calculations t"] kind_atoms_enumerated[of t]
    by (simp add: length_enumerated del: map_map)
qed

theorem setup_enumeration_fidelity_witness:
  "topology example_engine = Some example_topology \<and>
   calculationCount (fst (OplsForceField_setup example_lookup example_engine)) = 4 \<and>
   map (\<lambda>c. (kind c, atoms c))
       (calculations (fst (OplsForceField_setup example_lookup example_engine))) =
     [(BondStrech, [0, 1]), (AngleBend, [0, 1, 2]), (Torsion, [0, 1, 2, 3]), (Nonbonded, [0, 3])]"
  using setup_enumeration_fidelity [of example_engine example_topology example_lookup]
  by (simp add: example_engine_fields example_topology_def calculationCount_def)

subsection \<open>The value returned\<close>

text \<open>
  The setup loop runs over the whole collection, and \<^verbatim>\<open>setup\<close> does not empty the
  collection first. On the engine that kept the four calculations of an earlier call and
  now has the one-bond topology attached, the per-calculation setup of the one enumerated
  calculation succeeds, and yet \<^verbatim>\<open>setup\<close> returns false: the torsion left from the
  earlier call fails again.
\<close>

theorem setup_leftover_counterexample:
  "topology rebonded_engine = Some bond_topology \<and>
   (enumerated_calculations bond_topology :: rat list Calculation list) =
     [OplsBondStrechCalculation 0 1] \<and>
   snd (OplsCalculation_setup example_lookup (m_parameters rebonded_engine)
          (OplsBondStrechCalculation 0 1)) = True \<and>
   snd (OplsForceField_setup example_lookup rebonded_engine) = False \<and>
   calculationCount (fst (OplsForceField_setup example_lookup rebonded_engine)) = 5"
  by (intro conjI)
    (simp_all only: rebonded_engine_fields bond_enumerated example_bond_found rebonded_setup)

text \<open>
  C2, as the code has it. With a topology attached, \<^verbatim>\<open>setup\<close> returns true if and
  only if the per-calculation setup succeeds for every calculation of the collection it
  loops over: the calculations left by earlier calls followed by the enumerated ones.
  Equally, if and only if every calculation of the resulting collection has its "is set up"
  flag set. On an engine that holds no calculations this is: if and only if it succeeds for
  every enumerated calculation. In every case one failing per-calculation setup makes it
  return false.
\<close>

theorem setup_returns_true_iff_all_succeed:
  assumes "topology ff = Some t"
  shows "snd (OplsForceField_setup lk ff) =
           list_all (\<lambda>c. snd (OplsCalculation_setup lk (m_parameters ff) c))
             (calculations ff @ enumerated_calculations t) \<and>
         snd (OplsForceField_setup lk ff) =
           list_all isSetup (calculations (fst (OplsForceField_setup lk ff))) \<and>
         (calculations ff = [] \<longrightarrow>
            snd (OplsForceField_setup lk ff) =
              list_all (\<lambda>c. snd (OplsCalculation_setup lk (m_parameters ff) c))
                (enumerated_calculations t))"
  using assms
    list_all_isSetup_setup_one[of lk "m_parameters ff" "calculations ff @ enumerated_calculations t"]
  by (simp add: setup_Some)

theorem setup_returns_true_iff_all_succeed_witness:
  "topology example_engine = Some example_topology \<and>
   calculations example_engine = [] \<and>
   snd (OplsForceField_setup example_lookup example_engine) = False \<and>
   list_all isSetup (calculations (fst (OplsForceField_setup example_lookup example_engine))) = False \<and>
   list_all (\<lambda>c. snd (OplsCalculation_setup example_lookup (m_parameters example_engine) c))
     (enumerated_calculations example_topology) = False \<and>
   snd (OplsCalculation_setup example_lookup (Some example_table)
          (OplsTorsionCalculation 0 1 2 3)) = False"
proof -
  have h: "topology example_engine = Some example_topology"
    by (simp add: example_engine_fields)
  have fresh: "calculations example_engine = []"
    by (simp add: example_engine_fields)
  have r: "snd (OplsForceField_setup example_lookup example_engine) = False"
    by (simp add: example_setup)
  note all = setup_returns_true_iff_all_succeed [OF h, of example_lookup]
  have flags: "list_all isSetup
      (calculations (fst (OplsForceField_setup example_lookup example_engine))) = False"
    using all [THEN conjunct2, THEN conjunct1] r by simp
  have enumerated: "list_all
      (\<lambda>c. snd (OplsCalculation_setup example_lookup (m_parameters example_engine) c))
      (enumerated_calculations example_topology) = False"
    using all [THEN conjunct2, THEN conjunct2] fresh r by simp
  have torsion: "snd (OplsCalculation_setup example_lookup (Some example_table)
          (OplsTorsionCalculation 0 1 2 3)) = False"
    by (simp add: OplsCalculation_setup_def OplsTorsionCalculation_def example_lookup_def
        example_table_def)
  show ?thesis using h fresh r flags enumerated torsion by simp
qed

subsection \<open>Partial failure\<close>

text \<open>
  The count after \<^verbatim>\<open>setup\<close> is not always the total enumerated. The example topology
  enumerates four calculations; a second call on the engine the first call left, same
  topology and table, ends with eight.
\<close>

theorem setup_count_counterexample:
  "topology (fst (OplsForceField_setup example_lookup example_engine)) = Some example_topology \<and>
   length (enumerated_calculations example_topology :: rat list Calculation list) = 4 \<and>
   calculationCount (fst (OplsForceField_setup example_lookup
      (fst (OplsForceField_setup example_lookup example_engine)))) = 8"
  by (simp add: example_setup example_resetup example_engine_fields example_enumerated
      calculationCount_def)
    (simp add: example_calculations_def)

text \<open>
  C3, partial failure isolation, as the code has it. With a topology attached, whatever
  fails: the setup loop runs the per-calculation setup on every calculation of the
  collection (there is no short-circuit: the resulting collection is the old one followed
  by the enumerated calculations, each after its own setup with the boolean result recorded
  as its flag); nothing is discarded or rolled back; the count is the count before the call
  plus the total enumerated (hence the total enumerated only on an engine that held no
  calculations); the flag of each calculation is the result of its own setup; and a
  calculation whose lookup answers coefficients ends set up, bound to exactly these
  coefficients, with kind and atoms as enumerated, whether or not another calculation
  failed.
\<close>

theorem setup_partial_failure_isolation:
  assumes "topology ff = Some t"
  shows "calculationCount (fst (OplsForceField_setup lk ff)) =
           calculationCount ff + (length (bondedInteractions t) + length (angleInteractions t) +
             length (torsionInteractions t) + length (nonbondedInteractions t)) \<and>
         calculations (fst (OplsForceField_setup lk ff)) =
           map (\<lambda>c. setCalculationSetup (fst (OplsCalculation_setup lk (m_parameters ff) c))
                      (snd (OplsCalculation_setup lk (m_parameters ff) c)))
               (calculations ff @ enumerated_calculations t) \<and>
         (\<forall>i < length (calculations ff @ enumerated_calculations t).
            isSetup (calculations (fst (OplsForceField_setup lk ff)) ! i) =
              snd (OplsCalculation_setup lk (m_parameters ff)
                     ((calculations ff @ enumerated_calculations t) ! i))) \<and>
         (\<forall>i < length (calculations ff @ enumerated_calculations t). \<forall>v.
            lk (m_parameters ff) (kind ((calculations ff @ enumerated_calculations t) ! i))
               (atoms ((calculations ff @ enumerated_calculations t) ! i)) = Some v \<longrightarrow>
            calculations (fst (OplsForceField_setup lk ff)) ! i =
              ((calculations ff @ enumerated_calculations t) ! i)
                \<lparr>isSetup := True, coefficients := Some v\<rparr>)"
proof -
  let ?p = "m_parameters ff"
  let ?before = "calculations ff @ enumerated_calculations t"
  have cs: "calculations (fst (OplsForceField_setup lk ff)) = map (setup_one lk ?p) ?before"
    using assms by (simp add: setup_Some)
  have one: "setup_one lk ?p =
      (\<lambda>c. setCalculationSetup (fst (OplsCalculation_setup lk ?p c))
              (snd (OplsCalculation_setup lk ?p c)))"
    by (rule ext) (simp add: setup_one_def)
  have n: "calculationCount (fst (OplsForceField_setup lk ff)) =
           calculationCount ff + (length (bondedInteractions t) + length (angleInteractions t) +
             length (torsionInteractions t) + length (nonbondedInteractions t))"
    by (simp add: calculationCount_def cs length_enumerated)
  have fl: "\<forall>i < length ?before.
            isSetup (calculations (fst (OplsForceField_setup lk ff)) ! i) =
              snd (OplsCalculation_setup lk ?p (?before ! i))"
    unfolding cs by (simp add: setup_one_def setCalculationSetup_def del: map_append)
  have keep: "\<forall>i < length ?before. \<forall>v.
            lk ?p (kind (?before ! i)) (atoms (?before ! i)) = Some v \<longrightarrow>
            calculations (fst (OplsForceField_setup lk ff)) ! i =
              (?before ! i)\<lparr>isSetup := True, coefficients := Some v\<rparr>"
    unfolding cs
    by (simp add: setup_one_def setCalculationSetup_def OplsCalculation_setup_def
        del: map_append)
  show ?thesis using n cs fl keep unfolding one by blast
qed

theorem setup_partial_failure_isolation_witness:
  "topology example_engine = Some example_topology \<and>
   snd (OplsForceField_setup example_lookup example_engine) = False \<and>
   calculationCount (fst (OplsForceField_setup example_lookup example_engine)) = 4 \<and>
   (3::nat) < length (calculations example_engine @
        (enumerated_calculations example_topology :: rat list Calculation list)) \<and>
   example_lookup (Some example_table) Nonbonded [0, 3] = Some [1, 2] \<and>
   calculations (fst (OplsForceField_setup example_lookup example_engine)) ! 3 =
     \<lparr>kind = Nonbonded, atoms = [0, 3], isSetup = True, coefficients = Some [1, 2]\<rparr> \<and>
   isSetup (calculations (fst (OplsForceField_setup example_lookup example_engine)) ! 2) = False"
proof -
  let ?before = "calculations example_engine @
        (enumerated_calculations example_topology :: rat list Calculation list)"
  have h: "topology example_engine = Some example_topology"
    by (simp add: example_engine_fields)
  have len: "3 < length ?before"
    by (simp add: example_engine_fields length_enumerated example_topology_def)
  have at3: "?before ! 3 = OplsNonbondedCalculation 0 3"
    by (simp add: example_engine_fields example_enumerated)
  have found: "example_lookup (Some example_table) Nonbonded [0, 3] = Some [1, 2]"
    by (simp add: example_lookup_def example_table_def)
  then have lk: "example_lookup (m_parameters example_engine) (kind (?before ! 3))
      (atoms (?before ! 3)) = Some [1, 2]"
    unfolding at3 by (simp add: OplsNonbondedCalculation_def example_engine_fields)
  note all = setup_partial_failure_isolation [OF h, of example_lookup]
  have n: "calculationCount (fst (OplsForceField_setup example_lookup example_engine)) = 4"
    using all [THEN conjunct1]
    by (simp add: example_engine_fields calculationCount_def example_topology_def)
  have kept: "calculations (fst (OplsForceField_setup example_lookup example_engine)) ! 3 =
      (?before ! 3)\<lparr>isSetup := True, coefficients := Some [1, 2]\<rparr>"
    using all [THEN conjunct2, THEN conjunct2, THEN conjunct2] len lk by blast
  have failed: "isSetup (calculations (fst (OplsForceField_setup example_lookup example_engine)) ! 2)
      = False"
    by (simp add: example_setup example_calculations_def)
  have "calculations (fst (OplsForceField_setup example_lookup example_engine)) ! 3 =
      \<lparr>kind = Nonbonded, atoms = [0, 3], isSetup = True, coefficients = Some [1, 2]\<rparr>"
    unfolding kept at3 by (simp add: OplsNonbondedCalculation_def)
  then show ?thesis
    using h len found n failed by (simp add: example_setup)
qed

subsection \<open>No topology\<close>

text \<open>
  C4. Without a topology \<^verbatim>\<open>setup\<close> returns false at once and leaves the engine as it
  was: no calculation is created. It is the only hard failure: with a topology attached,
  a false result always comes with a calculation of the collection that is not set up.
\<close>

theorem setup_without_topology:
  "(topology ff = None \<longrightarrow> OplsForceField_setup lk ff = (ff, False)) \<and>
   (topology ff \<noteq> None \<and> \<not> snd (OplsForceField_setup lk ff) \<longrightarrow>
      (\<exists>c \<in> set (calculations (fst (OplsForceField_setup lk ff))). \<not> isSetup c))"
proof -
  have a: "topology ff = None \<longrightarrow> OplsForceField_setup lk ff = (ff, False)"
    by (simp add: OplsForceField_setup_def)
  have b: "topology ff \<noteq> None \<and> \<not> snd (OplsForceField_setup lk ff) \<longrightarrow>
      (\<exists>c \<in> set (calculations (fst (OplsForceField_setup lk ff))). \<not> isSetup c)"
  proof (cases "topology ff")
    case None
    then show ?thesis by simp
  next
    case (Some t)
    then show ?thesis
      using setup_result_flags[of ff t lk] by (auto simp: list_all_iff)
  qed
  show ?thesis using a b by blast
qed

theorem setup_without_topology_witness:
  "topology constructed_engine = None \<and>
   OplsForceField_setup example_lookup constructed_engine = (constructed_engine, False) \<and>
   calculationCount (fst (OplsForceField_setup example_lookup constructed_engine)) = 0 \<and>
   topology example_engine \<noteq> None \<and>
   \<not> snd (OplsForceField_setup example_lookup example_engine) \<and>
   \<not> isSetup (calculations (fst (OplsForceField_setup example_lookup example_engine)) ! 2)"
  using setup_without_topology [of constructed_engine example_lookup]
    setup_without_topology [of example_engine example_lookup]
  by (simp add: example_engine_fields example_setup example_calculations_def
      constructed_engine_def calculationCount_def)

subsection \<open>Calling setup again\<close>

text \<open>
  \<^verbatim>\<open>setup\<close> has no statement that empties the collection before its four appending
  loops. On the concrete engine the first call leaves four calculations and the second
  call eight.
\<close>

theorem resetup_counterexample:
  "calculationCount (fst (OplsForceField_setup example_lookup example_engine)) = 4 \<and>
   calculationCount (fst (OplsForceField_setup example_lookup
      (fst (OplsForceField_setup example_lookup example_engine)))) = 8"
  by (simp add: calculationCount_def example_setup example_resetup)
    (simp add: example_calculations_def)

text \<open>
  C5, as the code has it. A second \<^verbatim>\<open>setup\<close> with the same topology and table keeps
  the collection the first call left, unchanged (same calculations at the same indices,
  with the same setup outcomes and coefficients), and appends after it a second copy of
  the calculations the first call created, again with the same outcomes and coefficients;
  it returns what the first call returned.
\<close>

theorem resetup_appends:
  assumes "topology ff = Some t"
  shows "calculations (fst (OplsForceField_setup lk (fst (OplsForceField_setup lk ff)))) =
           calculations (fst (OplsForceField_setup lk ff)) @
           drop (calculationCount ff) (calculations (fst (OplsForceField_setup lk ff))) \<and>
         snd (OplsForceField_setup lk (fst (OplsForceField_setup lk ff))) =
           snd (OplsForceField_setup lk ff)"
proof -
  define p where "p = m_parameters ff"
  define ff1 where "ff1 = fst (OplsForceField_setup lk ff)"
  have t1: "topology ff1 = Some t" and p1: "m_parameters ff1 = p"
    and c1: "calculations ff1 = map (setup_one lk p) (calculations ff @ enumerated_calculations t)"
    using assms by (simp_all add: ff1_def p_def setup_Some)
  have r1: "snd (OplsForceField_setup lk ff) =
      list_all (\<lambda>c. snd (OplsCalculation_setup lk p c))
        (calculations ff @ enumerated_calculations t)"
    using assms by (simp add: p_def setup_Some)
  have r2: "OplsForceField_setup lk ff1 =
     (ff1\<lparr>calculations := map (setup_one lk p) (calculations ff1 @ enumerated_calculations t)\<rparr>,
      list_all (\<lambda>c. snd (OplsCalculation_setup lk p c))
        (calculations ff1 @ enumerated_calculations t))"
    using setup_Some[OF t1, of lk] by (simp only: p1)
  have a: "calculations (fst (OplsForceField_setup lk ff1)) =
      calculations ff1 @ map (setup_one lk p) (enumerated_calculations t)"
    unfolding r2 by (simp add: c1 setup_one_idem)
  have b: "drop (calculationCount ff) (calculations ff1) =
      map (setup_one lk p) (enumerated_calculations t)"
    by (simp add: c1 calculationCount_def)
  have "list_all (\<lambda>c. snd (OplsCalculation_setup lk p c)) (calculations ff1) =
      list_all (\<lambda>c. snd (OplsCalculation_setup lk p c))
        (calculations ff @ enumerated_calculations t)"
    unfolding c1 by (rule list_all_setup_setup_one)
  then have c: "snd (OplsForceField_setup lk ff1) = snd (OplsForceField_setup lk ff)"
    unfolding r2 r1 by auto
  show ?thesis using a b c unfolding ff1_def by simp
qed

theorem resetup_appends_witness:
  "topology example_engine = Some example_topology \<and>
   calculations (fst (OplsForceField_setup example_lookup example_engine)) =
     example_calculations \<and>
   calculations (fst (OplsForceField_setup example_lookup
      (fst (OplsForceField_setup example_lookup example_engine)))) =
     example_calculations @ example_calculations \<and>
   snd (OplsForceField_setup example_lookup
      (fst (OplsForceField_setup example_lookup example_engine))) = False"
proof -
  have h: "topology example_engine = Some example_topology"
    by (simp add: example_engine_fields)
  have first: "calculations (fst (OplsForceField_setup example_lookup example_engine)) =
      example_calculations"
    by (simp add: example_setup)
  have zero: "calculationCount example_engine = 0"
    by (simp add: calculationCount_def example_engine_fields)
  show ?thesis
    using resetup_appends [OF h, of example_lookup] h first
    unfolding first zero by (simp add: example_setup)
qed

subsection \<open>The empty topology\<close>

text \<open>
  On the engine that kept the four calculations of an earlier call, the empty topology
  attached afterwards does not give an empty collection, nor a true result.
\<close>

theorem setup_empty_topology_counterexample:
  "topology emptied_engine = Some empty_topology \<and>
   bondedInteractions empty_topology = [] \<and> angleInteractions empty_topology = [] \<and>
   torsionInteractions empty_topology = [] \<and> nonbondedInteractions empty_topology = [] \<and>
   snd (OplsForceField_setup example_lookup emptied_engine) = False \<and>
   calculationCount (fst (OplsForceField_setup example_lookup emptied_engine)) = 4"
  by (simp add: emptied_engine_fields emptied_setup empty_topology_def)

text \<open>
  C7, as the code has it. With a topology attached whose four sequences are all empty,
  \<^verbatim>\<open>setup\<close> creates no calculation: the engine afterwards is the engine before with
  each calculation it held set up again, the count is what it was, and the result is true
  if and only if each of these setups succeeds. On an engine that holds no calculations
  (as it is after construction), \<^verbatim>\<open>setup\<close> returns true, leaves the engine as it was,
  and the calculation collection is empty: the count is 0.
\<close>

theorem setup_empty_topology:
  assumes "topology ff = Some t"
    and "bondedInteractions t = []" and "angleInteractions t = []"
    and "torsionInteractions t = []" and "nonbondedInteractions t = []"
  shows "fst (OplsForceField_setup lk ff) =
           ff\<lparr>calculations :=
                map (\<lambda>c. setCalculationSetup (fst (OplsCalculation_setup lk (m_parameters ff) c))
                           (snd (OplsCalculation_setup lk (m_parameters ff) c)))
                    (calculations ff)\<rparr> \<and>
         calculationCount (fst (OplsForceField_setup lk ff)) = calculationCount ff \<and>
         snd (OplsForceField_setup lk ff) =
           list_all (\<lambda>c. snd (OplsCalculation_setup lk (m_parameters ff) c)) (calculations ff) \<and>
         (calculations ff = [] \<longrightarrow>
            OplsForceField_setup lk ff = (ff, True) \<and>
            calculationCount (fst (OplsForceField_setup lk ff)) = 0)"
proof -
  let ?p = "m_parameters ff"
  have one: "setup_one lk ?p =
      (\<lambda>c. setCalculationSetup (fst (OplsCalculation_setup lk ?p c))
              (snd (OplsCalculation_setup lk ?p c)))"
    by (rule ext) (simp add: setup_one_def)
  have r: "OplsForceField_setup lk ff =
      (ff\<lparr>calculations := map (setup_one lk ?p) (calculations ff)\<rparr>,
       list_all (\<lambda>c. snd (OplsCalculation_setup lk ?p c)) (calculations ff))"
    using assms by (simp add: setup_Some enumerated_empty)
  have a: "fst (OplsForceField_setup lk ff) =
      ff\<lparr>calculations := map (setup_one lk ?p) (calculations ff)\<rparr>"
    by (simp add: r)
  have b: "calculationCount (fst (OplsForceField_setup lk ff)) = calculationCount ff"
    by (simp add: r calculationCount_def)
  have c: "snd (OplsForceField_setup lk ff) =
      list_all (\<lambda>c. snd (OplsCalculation_setup lk ?p c)) (calculations ff)"
    by (simp add: r)
  have d: "calculations ff = [] \<longrightarrow>
      OplsForceField_setup lk ff = (ff, True) \<and>
      calculationCount (fst (OplsForceField_setup lk ff)) = 0"
  proof
    assume e: "calculations ff = []"
    then have "ff\<lparr>calculations := []\<rparr> = ff" by simp
    then show "OplsForceField_setup lk ff = (ff, True) \<and>
        calculationCount (fst (OplsForceField_setup lk ff)) = 0"
      using e by (simp add: r calculationCount_def)
  qed
  show ?thesis using a b c d unfolding one by blast
qed

theorem setup_empty_topology_witness:
  "OplsForceField_new example_plugins example_loader = Inr constructed_engine \<and>
   topology (setTopology constructed_engine (Some empty_topology)) = Some empty_topology \<and>
   calculations (setTopology constructed_engine (Some empty_topology)) = [] \<and>
   bondedInteractions empty_topology = [] \<and> angleInteractions empty_topology = [] \<and>
   torsionInteractions empty_topology = [] \<and> nonbondedInteractions empty_topology = [] \<and>
   OplsForceField_setup example_lookup (setTopology constructed_engine (Some empty_topology)) =
     (setTopology constructed_engine (Some empty_topology), True) \<and>
   calculationCount (fst (OplsForceField_setup example_lookup
     (setTopology constructed_engine (Some empty_topology)))) = 0 \<and>
   topology emptied_engine = Some empty_topology \<and>
   calculationCount emptied_engine = 4 \<and>
   calculationCount (fst (OplsForceField_setup example_lookup emptied_engine)) = 4 \<and>
   snd (OplsForceField_setup example_lookup emptied_engine) = False"
proof -
  let ?ff = "setTopology constructed_engine (Some empty_topology)"
  have h: "topology ?ff = Some empty_topology"
    by (simp add: setTopology_def constructed_engine_def)
  have fresh: "calculations ?ff = []"
    by (simp add: setTopology_def constructed_engine_def)
  have e: "bondedInteractions empty_topology = []" "angleInteractions empty_topology = []"
    "torsionInteractions empty_topology = []" "nonbondedInteractions empty_topology = []"
    by (simp_all add: empty_topology_def)
  have first: "OplsForceField_setup example_lookup ?ff = (?ff, True) \<and>
      calculationCount (fst (OplsForceField_setup example_lookup ?ff)) = 0"
    using setup_empty_topology [OF h e, of example_lookup] fresh by blast
  have h': "topology emptied_engine = Some empty_topology"
    by (simp add: emptied_engine_fields)
  have n: "calculationCount emptied_engine = 4"
    by (simp add: calculationCount_def emptied_engine_fields example_calculations_def)
  have kept: "calculationCount (fst (OplsForceField_setup example_lookup emptied_engine)) = 4"
    using setup_empty_topology [OF h' e, of example_lookup, THEN conjunct2, THEN conjunct1] n
    by simp
  have fails: "snd (OplsForceField_setup example_lookup emptied_engine) = False"
    using setup_empty_topology
      [OF h' e, of example_lookup, THEN conjunct2, THEN conjunct2, THEN conjunct1]
    by (simp add: emptied_engine_fields example_calculations_fail)
  show ?thesis using example_new h fresh e first h' n kept fails by blast
qed

section \<open>Properties of construction\<close>

subsection \<open>Loading the parameter table\<close>

text \<open>
  Without the "opls" plugin there is no path to the parameter file, and the constructor
  keeps the null table it started with: the engine is constructed and nothing is reported.
\<close>

theorem construction_without_plugin_counterexample:
  "plugin [] ''opls'' = None \<and>
   (OplsForceField_new [] example_loader :: LoadError + (ExampleTable, rat list) OplsForceField) =
     Inr \<lparr>ff_name = ''opls'', flags = AnalyticalGradient, topology = None,
          calculations = [], m_parameters = None\<rparr>"
  by (simp add: OplsForceField_new_def ForceField_new_def setFlags_def plugin_def)

text \<open>
  C6, as the code has it. When the "opls" plugin is not registered, construction succeeds
  with a null parameter table and no load error. Construction fails, with a load error,
  exactly when the plugin is registered and the table loader itself fails on
  \<^verbatim>\<open>dataPath + "oplsaa.prm"\<close>; it is then that loader's error.
\<close>

theorem construction_load_error:
  "(plugin pm ''opls'' = None \<longrightarrow>
      OplsForceField_new pm load =
        Inr \<lparr>ff_name = ''opls'', flags = AnalyticalGradient, topology = None,
             calculations = [], m_parameters = None\<rparr>) \<and>
   (OplsForceField_new pm load = Inl e \<longleftrightarrow>
      (\<exists>pl. plugin pm ''opls'' = Some pl \<and> load (dataPath pl @ ''oplsaa.prm'') = Inl e))"
  by (auto simp: OplsForceField_new_def ForceField_new_def setFlags_def Let_def
      split: option.splits sum.splits)

theorem construction_load_error_witness:
  "plugin [] ''opls'' = None \<and>
   (OplsForceField_new [] example_loader :: LoadError + (ExampleTable, rat list) OplsForceField) =
     Inr \<lparr>ff_name = ''opls'', flags = AnalyticalGradient, topology = None,
          calculations = [], m_parameters = None\<rparr> \<and>
   plugin misplaced_plugins ''opls'' = Some \<lparr>dataPath = ''nowhere/''\<rparr> \<and>
   example_loader (''nowhere/'' @ ''oplsaa.prm'') = Inl (LoadError ''nowhere/oplsaa.prm'') \<and>
   (OplsForceField_new misplaced_plugins example_loader
      :: LoadError + (ExampleTable, rat list) OplsForceField) =
     Inl (LoadError ''nowhere/oplsaa.prm'')"
proof -
  have none: "plugin [] ''opls'' = None"
    by (simp add: plugin_def)
  have some: "plugin misplaced_plugins ''opls'' = Some \<lparr>dataPath = ''nowhere/''\<rparr>"
    by (simp add: plugin_def misplaced_plugins_def)
  have fails: "example_loader (dataPath \<lparr>dataPath = ''nowhere/''\<rparr> @ ''oplsaa.prm'') =
      Inl (LoadError ''nowhere/oplsaa.prm'')"
    by (simp add: example_loader_def)
  have a: "(OplsForceField_new [] example_loader
        :: LoadError + (ExampleTable, rat list) OplsForceField) =
      Inr \<lparr>ff_name = ''opls'', flags = AnalyticalGradient, topology = None,
           calculations = [], m_parameters = None\<rparr>"
    using construction_load_error [of "[]" example_loader] none by blast
  have b: "(OplsForceField_new misplaced_plugins example_loader
        :: LoadError + (ExampleTable, rat list) OplsForceField) =
      Inl (LoadError ''nowhere/oplsaa.prm'')"
    using construction_load_error [of misplaced_plugins example_loader
        "LoadError ''nowhere/oplsaa.prm''"] some fails by blast
  show ?thesis using none some fails a b by simp
qed

subsection \<open>The capability flag\<close>

lemma flags_setup: "flags (fst (OplsForceField_setup lk ff)) = flags ff"
proof (cases "topology ff")
  case None
  then show ?thesis by (simp add: OplsForceField_setup_def)
next
  case (Some t)
  then show ?thesis by (simp add: setup_Some)
qed

lemma flags_apply_operation: "flags (apply_operation lk en op ff) = flags ff"
  by (cases op) (simp_all add: flags_setup compute_def setTopology_def)

lemma flags_fold_operations: "flags (fold (apply_operation lk en) ops ff) = flags ff"
  by (induction ops arbitrary: ff) (simp_all add: flags_apply_operation)

lemma flags_new: "OplsForceField_new pm load = Inr ff \<Longrightarrow> flags ff = AnalyticalGradient"
  by (auto simp: OplsForceField_new_def ForceField_new_def setFlags_def Let_def
      split: option.splits sum.splits)

text \<open>
  C8. Every constructed engine, with or without a parameter table, advertises the
  analytic-gradient capability, and still does after any run of \<^verbatim>\<open>setup\<close>,
  \<^verbatim>\<open>compute\<close> and \<^verbatim>\<open>setTopology\<close> calls, whatever the per-calculation setups answer.
\<close>

theorem analytical_gradient_always_advertised:
  assumes "OplsForceField_new pm load = Inr ff"
  shows "testFlag ff AnalyticalGradient \<and>
         testFlag (fold (apply_operation lk en) ops ff) AnalyticalGradient"
  using flags_new[OF assms]
  by (simp add: testFlag_def flags_fold_operations AnalyticalGradient_def)

theorem analytical_gradient_always_advertised_witness:
  "OplsForceField_new example_plugins example_loader = Inr constructed_engine \<and>
   testFlag constructed_engine AnalyticalGradient \<and>
   testFlag (fold (apply_operation example_lookup example_energy)
               [SetTopology (Some example_topology), Setup, Compute, Setup] constructed_engine)
     AnalyticalGradient"
  using analytical_gradient_always_advertised [OF example_new, of example_lookup example_energy
      "[SetTopology (Some example_topology), Setup, Compute, Setup]"] example_new
  by simp

section \<open>Properties of GraphicsTransform\<close>

subsection \<open>The default transform\<close>

lemma GraphicsTransform_new_rows:
  "GraphicsTransform_new =
     [[Finite 0, Finite 0, Finite 0, Finite 0],
      [Finite 0, Finite 0, Finite 0, Finite 0],
      [Finite 0, Finite 0, Finite 0, Finite 0],
      [Finite 0, Finite 0, Finite 0, Finite 0]]"
  by (simp add: GraphicsTransform_new_def setZero_def numeral_eq_Suc)

lemma identity_rows:
  "identity =
     [[Finite 1, Finite 0, Finite 0, Finite 0],
      [Finite 0, Finite 1, Finite 0, Finite 0],
      [Finite 0, Finite 0, Finite 1, Finite 0],
      [Finite 0, Finite 0, Finite 0, Finite 1]]"
  by (simp add: identity_def setIdentity_def)

text \<open>
  A point with an infinite coordinate is a value of \<^verbatim>\<open>Point3f\<close>. On the default
  transform every row computes \<open>0 * inf + 0 * 0 + 0 * 0 + 0 * 1\<close>, which is NaN, not zero.
\<close>

theorem default_transform_nonfinite_counterexample:
  "multiplyPoint GraphicsTransform_new (Infinity False, Finite 0, Finite 0) = (NaN, NaN, NaN)"
  by (simp add: multiplyPoint_def GraphicsTransform_new_rows product_def coeff_def)

text \<open>
  C9, as the code has it. A default-constructed transform is the all-zero 4x4 matrix. For
  every point and vector with finite coordinates, \<^verbatim>\<open>multiplyPoint\<close> and
  \<^verbatim>\<open>multiplyVector\<close> on it answer the zero point and the zero vector. It is not the
  identity transform, which answers the point it is given.
\<close>

theorem default_transform_is_zero:
  "GraphicsTransform_new = replicate 4 (replicate 4 (Finite 0)) \<and>
   multiplyPoint GraphicsTransform_new (Finite x, Finite y, Finite z) =
     (Finite 0, Finite 0, Finite 0) \<and>
   multiplyVector GraphicsTransform_new (Finite x, Finite y, Finite z) =
     (Finite 0, Finite 0, Finite 0) \<and>
   GraphicsTransform_new \<noteq> identity \<and>
   multiplyPoint identity (Finite x, Finite y, Finite z) = (Finite x, Finite y, Finite z)"
proof -
  have a: "GraphicsTransform_new = replicate 4 (replicate 4 (Finite 0))"
    by (simp add: GraphicsTransform_new_def setZero_def)
  have b: "multiplyPoint GraphicsTransform_new (Finite x, Finite y, Finite z) =
     (Finite 0, Finite 0, Finite 0)"
    by (simp add: multiplyPoint_def GraphicsTransform_new_rows product_def coeff_def)
  have c: "multiplyVector GraphicsTransform_new (Finite x, Finite y, Finite z) =
     (Finite 0, Finite 0, Finite 0)"
    by (simp add: multiplyVector_def GraphicsTransform_new_rows product_def coeff_def)
  have d: "GraphicsTransform_new \<noteq> identity"
    by (simp add: GraphicsTransform_new_rows identity_rows)
  have e: "multiplyPoint identity (Finite x, Finite y, Finite z) = (Finite x, Finite y, Finite z)"
    by (simp add: multiplyPoint_def identity_rows product_def coeff_def)
  show ?thesis using a b c d e by blast
qed

subsection \<open>Angles\<close>

lemma GraphicsTransform_of_rows:
  "GraphicsTransform_of a =
     [[op_lit a 0, op_lit a 0, op_lit a 0, op_lit a 0],
      [op_lit a 0, op_lit a 0, op_lit a 0, op_lit a 0],
      [op_lit a 0, op_lit a 0, op_lit a 0, op_lit a 0],
      [op_lit a 0, op_lit a 0, op_lit a 0, op_lit a 0]]"
  by (simp add: GraphicsTransform_of_def numeral_eq_Suc)

lemma transforms_of_float:
  "op_lit a 0 = Finite 0 \<Longrightarrow> op_lit a 1 = Finite 1 \<Longrightarrow>
   GraphicsTransform_of a = GraphicsTransform_new \<and> identity_of a = identity"
  by (simp add: GraphicsTransform_of_rows GraphicsTransform_new_rows identity_of_def identity_rows)




end
